theory Spec2Isabelle
  imports Complex_Main "HOL-Library.Log_Nat"
begin

section \<open>Data model (src/services/api.ts)\<close>

text \<open>
  The TypeScript interfaces of \<^verbatim>\<open>api.ts\<close>, one record each. A TypeScript \<^verbatim>\<open>string\<close>
  is a \<open>string\<close>. A \<^verbatim>\<open>number\<close> that is received or written as a literal is a finite
  double, given by its exact value, a rational (a JSON number beyond the range of doubles,
  which is read as an infinity, is not modelled). The sums and the quotient of the
  averages are taken in the arithmetic of doubles, see \<open>js_add\<close> and \<open>js_divide\<close> below;
  the mock data are built with exact sums and products. A field name belongs to one
  record only, so a name that several interfaces share (\<^verbatim>\<open>id\<close>, \<^verbatim>\<open>type\<close>, \<^verbatim>\<open>location\<close>,
  \<^verbatim>\<open>timestamp\<close>, \<^verbatim>\<open>title\<close>, \<^verbatim>\<open>description\<close>) carries the interface's name in all but one
  of them.
\<close>

record LoginCredentials =
  username :: string
  password :: string

record Alert =
  alert_id :: string
  alert_type :: string
  message :: string
  alert_location :: string
  alert_timestamp :: string
  severity :: string

record Location =
  location_id :: string
  village :: string
  district :: string
  state :: string
  latitude :: rat
  longitude :: rat
  status :: string

record Reading =
  reading_id :: string
  location :: string
  ph :: rat
  turbidity :: rat
  temperature :: rat
  timestamp :: string

record Report =
  report_id :: string
  report_title :: string
  report_description :: string
  generatedAt :: string
  downloadUrl :: string
  report_type :: string

section \<open>The JavaScript built-ins the pages use\<close>

subsection \<open>Decimal numerals and template strings\<close>

definition digit :: "nat \<Rightarrow> char" where
  "digit d = char_of (48 + d)"

fun decimal :: "nat \<Rightarrow> string" where
  "decimal n = (if n < 10 then [digit n] else decimal (n div 10) @ [digit (n mod 10)])"

declare decimal.simps [simp del]

definition pad :: "nat \<Rightarrow> nat \<Rightarrow> string" where
  "pad w n = replicate (w - length (decimal n)) (CHR ''0'') @ decimal n"

subsection \<open>String.prototype.toLowerCase\<close>

text \<open>
  On the letters A to Z; every other byte is kept. (JavaScript also maps letters outside
  ASCII; none of them is mapped to a string of the letters of
  \<^verbatim>\<open>active\<close>, \<^verbatim>\<open>warning\<close> or \<^verbatim>\<open>inactive\<close>.)
\<close>

definition toLowerChar :: "char \<Rightarrow> char" where
  "toLowerChar c =
     (let n = (of_char c :: nat) in if 65 \<le> n \<and> n \<le> 90 then char_of (n + 32) else c)"

definition toLowerCase :: "string \<Rightarrow> string" where
  "toLowerCase s = map toLowerChar s"

subsection \<open>The arithmetic of doubles, and Number.prototype.toFixed\<close>

text \<open>
  The value of an expression is a finite double, given by its exact value, \<^verbatim>\<open>NaN\<close> or an
  infinity. The two zeros are one number: a sum that starts from \<^verbatim>\<open>0\<close> is never the
  negative zero, the divisor of the averages is a length, and \<^verbatim>\<open>toFixed\<close> prints both
  zeros alike.
\<close>

datatype jsnumber = Finite rat | NaN | PosInfinity | NegInfinity

text \<open>
  Rounding to the nearest double (IEEE 754 binary64, ties to the even significand). For
  \<open>a > 0\<close>, \<open>floor_log2 a\<close> is the \<open>k\<close> with \<open>2 ^ k \<le> a < 2 ^ (k + 1)\<close>; the last place of
  the double has the exponent \<open>e = k - 52\<close>, and \<open>- 1074\<close> at least (subnormal numbers);
  the significand is \<open>a / 2 ^ e\<close> rounded to the nearest integer, the even one of two. A
  result of \<open>2 ^ 1024\<close> or more is an infinity.
\<close>

definition pow2 :: "int \<Rightarrow> rat" where
  "pow2 e = (if 0 \<le> e then 2 ^ nat e else 1 / 2 ^ nat (- e))"

definition floor_log2 :: "rat \<Rightarrow> int" where
  "floor_log2 a =
     (let (p, q) = quotient_of a; k = bitlen p - bitlen q
      in if pow2 k \<le> a then k else k - 1)"

definition round_half_even :: "rat \<Rightarrow> int" where
  "round_half_even x =
     (let f = \<lfloor>x\<rfloor>; d = x - of_int f
      in if d < 1 / 2 then f else if 1 / 2 < d then f + 1 else if even f then f else f + 1)"

definition round_double :: "rat \<Rightarrow> jsnumber" where
  "round_double x =
     (if x = 0 then Finite 0
      else
        (let a = \<bar>x\<bar>;
             e = max (floor_log2 a - 52) (- 1074);
             m = round_half_even (a / pow2 e)
         in if 971 < e \<or> (e = 971 \<and> 2 ^ 53 \<le> m)
            then (if 0 < x then PosInfinity else NegInfinity)
            else Finite (sgn x * of_int m * pow2 e)))"

text \<open>
  \<^verbatim>\<open>x + y\<close> and \<^verbatim>\<open>x / y\<close>: the exact result, rounded; \<^verbatim>\<open>NaN\<close> for a \<^verbatim>\<open>NaN\<close> operand, for the
  sum of opposite infinities, for an infinity over an infinity and for \<^verbatim>\<open>0 / 0\<close>; a
  non-zero number over zero is an infinity.
\<close>

fun js_add :: "jsnumber \<Rightarrow> jsnumber \<Rightarrow> jsnumber" where
  "js_add (Finite a) (Finite b) = round_double (a + b)"
| "js_add NaN y = NaN"
| "js_add x NaN = NaN"
| "js_add PosInfinity NegInfinity = NaN"
| "js_add NegInfinity PosInfinity = NaN"
| "js_add PosInfinity y = PosInfinity"
| "js_add x PosInfinity = PosInfinity"
| "js_add NegInfinity y = NegInfinity"
| "js_add x NegInfinity = NegInfinity"

fun js_divide :: "jsnumber \<Rightarrow> jsnumber \<Rightarrow> jsnumber" where
  "js_divide (Finite a) (Finite b) =
     (if b \<noteq> 0 then round_double (a / b)
      else if a = 0 then NaN
      else if 0 < a then PosInfinity
      else NegInfinity)"
| "js_divide NaN y = NaN"
| "js_divide x NaN = NaN"
| "js_divide (Finite a) y = Finite 0"
| "js_divide PosInfinity (Finite b) = (if b < 0 then NegInfinity else PosInfinity)"
| "js_divide NegInfinity (Finite b) = (if b < 0 then PosInfinity else NegInfinity)"
| "js_divide x y = NaN"

text \<open>
  \<^verbatim>\<open>x.toFixed(f)\<close> after ECMA-262: a non-finite number prints as its name; otherwise the sign
  is split off, \<open>n\<close> is the integer nearest to \<open>x * 10 ^ f\<close> (the larger one of two), and
  its digits are printed with a point before the last \<open>f\<close> of them, zeros added in front
  when there are too few. From \<open>10 ^ 21\<close> on JavaScript prints the shortest digits that
  identify the double, in exponent notation, which is not modelled: the model returns
  \<open>None\<close> there.
\<close>

definition toFixed_digits :: "nat \<Rightarrow> rat \<Rightarrow> string" where
  "toFixed_digits f x =
     (let n = nat \<lfloor>x * 10 ^ f + 1 / 2\<rfloor>;
          m = decimal n
      in if f \<noteq> 0 then
           (let m' = (if length m \<le> f then replicate (f + 1 - length m) (CHR ''0'') @ m else m);
                k = length m'
            in take (k - f) m' @ ''.'' @ drop (k - f) m')
         else m)"

definition toFixed :: "nat \<Rightarrow> jsnumber \<Rightarrow> string option" where
  "toFixed f v =
     (case v of
        NaN \<Rightarrow> Some ''NaN''
      | PosInfinity \<Rightarrow> Some ''Infinity''
      | NegInfinity \<Rightarrow> Some ''-Infinity''
      | Finite x \<Rightarrow>
          (if 10 ^ 21 \<le> \<bar>x\<bar> then None
           else if x < 0 then Some (''-'' @ toFixed_digits f (- x))
           else Some (toFixed_digits f x)))"

subsection \<open>Date.prototype.toISOString, Date.now and Math.random\<close>

text \<open>
  A time value is an \<open>int\<close> of milliseconds since the epoch. \<open>civil_from_days\<close> turns a day
  number into year, month and day of the proleptic Gregorian calendar; \<open>toISOString\<close>
  prints \<^verbatim>\<open>YYYY-MM-DDTHH:mm:ss.sssZ\<close>, with a sign and six digits for a year outside
  0 to 9999, as ECMA-262 has it.
\<close>

definition civil_from_days :: "int \<Rightarrow> int \<times> int \<times> int" where
  "civil_from_days days =
     (let z = days + 719468;
          era = z div 146097;
          doe = z - era * 146097;
          yoe = (doe - doe div 1460 + doe div 36524 - doe div 146096) div 365;
          doy = doe - (365 * yoe + yoe div 4 - yoe div 100);
          mp = (5 * doy + 2) div 153;
          d = doy - (153 * mp + 2) div 5 + 1;
          m = (if mp < 10 then mp + 3 else mp - 9);
          y = yoe + era * 400 + (if m \<le> 2 then 1 else 0)
      in (y, m, d))"

definition toISOString :: "int \<Rightarrow> string" where
  "toISOString t =
     (let (y, m, d) = civil_from_days (t div 86400000);
          ms = t mod 86400000;
          year = (if 0 \<le> y \<and> y \<le> 9999 then pad 4 (nat y)
                  else (if y < 0 then ''-'' else ''+'') @ pad 6 (nat \<bar>y\<bar>))
      in year @ ''-'' @ pad 2 (nat m) @ ''-'' @ pad 2 (nat d) @ ''T'' @
         pad 2 (nat (ms div 3600000)) @ '':'' @ pad 2 (nat (ms div 60000 mod 60)) @ '':'' @
         pad 2 (nat (ms div 1000 mod 60)) @ ''.'' @ pad 3 (nat (ms mod 1000)) @ ''Z'')"

text \<open>
  What a run reads from outside: \<open>date_now e k\<close> is the clock at the \<open>k\<close>-th reading of it
  (\<^verbatim>\<open>new Date()\<close>, \<^verbatim>\<open>Date.now()\<close>) and \<open>math_random e k\<close> the \<open>k\<close>-th result of
  \<^verbatim>\<open>Math.random()\<close>, both counted from 0 within one call of a fetch function.
\<close>

record env =
  date_now :: "nat \<Rightarrow> int"
  math_random :: "nat \<Rightarrow> rat"

section \<open>HTTP client wrapper (src/services/api.ts)\<close>

text \<open>
  The state outside the pages: the browser's \<^verbatim>\<open>localStorage\<close>, the path the window shows
  (assigned through \<^verbatim>\<open>window.location.href\<close> and through the router's \<^verbatim>\<open>navigate\<close>), and
  the notifications raised through \<^verbatim>\<open>toast\<close>, oldest first.
\<close>

record toast =
  title :: string
  description :: string
  variant :: "string option"

record world =
  localStorage :: "string \<rightharpoonup> string"
  href :: string
  toasts :: "toast list"

definition getItem :: "string \<Rightarrow> world \<Rightarrow> string option" where
  "getItem k w = localStorage w k"

definition setItem :: "string \<Rightarrow> string \<Rightarrow> world \<Rightarrow> world" where
  "setItem k v w = w\<lparr>localStorage := (localStorage w)(k \<mapsto> v)\<rparr>"

definition removeItem :: "string \<Rightarrow> world \<Rightarrow> world" where
  "removeItem k w = w\<lparr>localStorage := (localStorage w)(k := None)\<rparr>"

definition navigate :: "string \<Rightarrow> world \<Rightarrow> world" where
  "navigate path w = w\<lparr>href := path\<rparr>"

definition raise_toast :: "toast \<Rightarrow> world \<Rightarrow> world" where
  "raise_toast t w = w\<lparr>toasts := toasts w @ [t]\<rparr>"

text \<open>
  The request configuration of a call (its \<^verbatim>\<open>method\<close> is the field \<open>http_method\<close>), the
  response (\<^verbatim>\<open>status\<close> and \<^verbatim>\<open>data\<close> are \<open>resp_status\<close> and \<open>resp_data\<close>) and the error
  of a rejected call (\<^verbatim>\<open>message\<close> and \<^verbatim>\<open>response\<close> are \<open>err_message\<close> and \<open>err_response\<close>).
\<close>

record config =
  baseURL :: string
  url :: string
  http_method :: string
  headers :: "string \<rightharpoonup> string"
  data :: "LoginCredentials option"
  responseType :: "string option"

record 'd response =
  resp_status :: nat
  resp_data :: 'd

record 'd AxiosError =
  err_message :: string
  err_response :: "'d response option"

text \<open>
  The network answers a request with a response of some status, or not at all. The HTTP
  library resolves a call whose status lies in 200 to 299 (its default
  \<^verbatim>\<open>validateStatus\<close>) and rejects every other one with an error that carries the
  response; no answer is an error without a response.
\<close>

datatype 'd reply = NoReply string | Reply "'d response"

definition settle :: "'d reply \<Rightarrow> 'd AxiosError + 'd response" where
  "settle r =
     (case r of
        NoReply msg \<Rightarrow> Inl \<lparr>err_message = msg, err_response = None\<rparr>
      | Reply resp \<Rightarrow>
          (if 200 \<le> resp_status resp \<and> resp_status resp < 300 then Inr resp
           else Inl \<lparr>err_message = ''Request failed with status code '' @ decimal (resp_status resp),
                     err_response = Some resp\<rparr>))"

definition API_BASE_URL :: string where
  "API_BASE_URL = ''http://localhost:5000''"

text \<open>\<^verbatim>\<open>axios.create\<close>: the instance's defaults, merged into every call's configuration.\<close>

definition api_defaults :: config where
  "api_defaults =
     \<lparr> baseURL = API_BASE_URL, url = [], http_method = ''get'',
       headers = [''Content-Type'' \<mapsto> ''application/json''],
       data = None, responseType = None \<rparr>"

text \<open>The request interceptor: \<^verbatim>\<open>if (token)\<close> holds for a stored string that is not empty.\<close>

definition requestInterceptor :: "world \<Rightarrow> config \<Rightarrow> config" where
  "requestInterceptor w cfg =
     (case getItem ''auth_token'' w of
        None \<Rightarrow> cfg
      | Some token \<Rightarrow>
          (if token \<noteq> [] then cfg\<lparr>headers := (headers cfg)(''Authorization'' \<mapsto> ''Bearer '' @ token)\<rparr>
           else cfg))"

text \<open>
  The response interceptor: a response passes; an error whose
  \<^verbatim>\<open>error.response?.status\<close> is 401 removes the token and sends the window to
  \<^verbatim>\<open>/login\<close>; every error is rejected again as it came.
\<close>

definition responseFulfilled :: "world \<Rightarrow> 'd response \<Rightarrow> world \<times> ('d AxiosError + 'd response)" where
  "responseFulfilled w resp = (w, Inr resp)"

definition responseRejected :: "world \<Rightarrow> 'd AxiosError \<Rightarrow> world \<times> ('d AxiosError + 'd response)" where
  "responseRejected w error =
     (if map_option resp_status (err_response error) = Some 401
      then (navigate ''/login'' (removeItem ''auth_token'' w), Inl error)
      else (w, Inl error))"

text \<open>
  One call through the instance: the request interceptor, the network, the library's
  settling of the answer, the response interceptor.
\<close>

definition api_request ::
  "(config \<Rightarrow> 'd reply) \<Rightarrow> world \<Rightarrow> config \<Rightarrow> world \<times> ('d AxiosError + 'd response)" where
  "api_request network w cfg =
     (case settle (network (requestInterceptor w cfg)) of
        Inr resp \<Rightarrow> responseFulfilled w resp
      | Inl error \<Rightarrow> responseRejected w error)"

text \<open>
  \<^verbatim>\<open>api.get(path, {responseType})\<close> and \<^verbatim>\<open>api.post(path, body)\<close>: the call's configuration
  is the instance's defaults with the call's own entries.
\<close>

definition get_config :: "string \<Rightarrow> string option \<Rightarrow> config" where
  "get_config path rt = api_defaults\<lparr>url := path, http_method := ''get'', responseType := rt\<rparr>"

definition post_config :: "string \<Rightarrow> LoginCredentials option \<Rightarrow> config" where
  "post_config path body = api_defaults\<lparr>url := path, http_method := ''post'', data := body\<rparr>"

definition api_get ::
  "(config \<Rightarrow> 'd reply) \<Rightarrow> world \<Rightarrow> string \<Rightarrow> string option \<Rightarrow> world \<times> ('d AxiosError + 'd response)" where
  "api_get network w path rt = api_request network w (get_config path rt)"

definition api_post ::
  "(config \<Rightarrow> 'd reply) \<Rightarrow> world \<Rightarrow> string \<Rightarrow> LoginCredentials option \<Rightarrow> world \<times> ('d AxiosError + 'd response)" where
  "api_post network w path body = api_request network w (post_config path body)"

subsection \<open>Resource accessors\<close>

text \<open>
  The body of a login response: \<^verbatim>\<open>null\<close> (or none at all), or an object whose \<^verbatim>\<open>token\<close>
  field is a string or is missing.
\<close>

datatype loginData = NullData | LoginObject "string option"

definition authAPI_login ::
  "(config \<Rightarrow> loginData reply) \<Rightarrow> world \<Rightarrow> LoginCredentials \<Rightarrow> world \<times> (loginData AxiosError + loginData response)" where
  "authAPI_login network w creds = api_post network w ''/api/login'' (Some creds)"

definition authAPI_logout :: "world \<Rightarrow> world" where
  "authAPI_logout w = removeItem ''auth_token'' w"

definition alertsAPI_getAlerts ::
  "(config \<Rightarrow> Alert list reply) \<Rightarrow> world \<Rightarrow> world \<times> (Alert list AxiosError + Alert list response)" where
  "alertsAPI_getAlerts network w = api_get network w ''/api/alerts'' None"



definition reportsAPI_getReports ::
  "(config \<Rightarrow> Report list reply) \<Rightarrow> world \<Rightarrow> world \<times> (Report list AxiosError + Report list response)" where
  "reportsAPI_getReports network w = api_get network w ''/api/reports'' None"

definition reportsAPI_downloadReport ::
  "(config \<Rightarrow> string reply) \<Rightarrow> world \<Rightarrow> string \<Rightarrow> world \<times> (string AxiosError + string response)" where
  "reportsAPI_downloadReport network w reportId =
     api_get network w (''/api/reports/'' @ reportId @ ''/download'') (Some ''blob'')"

section \<open>The data pages\<close>

text \<open>
  Each page computes what it shows from its list on every render; the list and a
  \<^verbatim>\<open>loading\<close> flag are its state (\<^verbatim>\<open>useState\<close>). A fetch function is modelled by the
  state it leaves when its promise has settled: the \<^verbatim>\<open>try\<close> branch stores
  \<^verbatim>\<open>response.data\<close>, the \<^verbatim>\<open>catch\<close> branch raises a toast and stores the mock data, and
  \<^verbatim>\<open>finally\<close> clears the flag. In the records of the state, the flag carries the page's
  name.
\<close>

subsection \<open>Locations page (src/pages/Locations.tsx)\<close>

definition getStatusColor :: "string \<Rightarrow> string" where
  "getStatusColor st =
     (let s = toLowerCase st in
      if s = ''active'' then ''bg-status-success text-white''
      else if s = ''warning'' then ''bg-status-warning text-white''
      else if s = ''inactive'' then ''bg-muted text-muted-foreground''
      else ''bg-muted text-muted-foreground'')"

text \<open>The four summary cards: \<^verbatim>\<open>locations.length\<close> and the three filtered lengths.\<close>

definition totalCount :: "Location list \<Rightarrow> nat" where
  "totalCount locations = length locations"

definition activeCount :: "Location list \<Rightarrow> nat" where
  "activeCount locations = length (filter (\<lambda>l. status l = ''active'') locations)"

definition warningLocationCount :: "Location list \<Rightarrow> nat" where
  "warningLocationCount locations = length (filter (\<lambda>l. status l = ''warning'') locations)"

definition inactiveCount :: "Location list \<Rightarrow> nat" where
  "inactiveCount locations = length (filter (\<lambda>l. status l = ''inactive'') locations)"

record LocationsState =
  locations :: "Location list"
  locations_loading :: bool
  viewMode :: string




subsection \<open>Alerts page (the component \<^verbatim>\<open>Alerts\<close> of src/unnamed/part_000)\<close>

definition criticalCount :: "Alert list \<Rightarrow> nat" where
  "criticalCount alerts = length (filter (\<lambda>a. severity a = ''critical'') alerts)"

definition warningCount :: "Alert list \<Rightarrow> nat" where
  "warningCount alerts = length (filter (\<lambda>a. severity a = ''warning'') alerts)"

definition infoCount :: "Alert list \<Rightarrow> nat" where
  "infoCount alerts = length (filter (\<lambda>a. severity a = ''info'') alerts)"

record AlertsState =
  alerts :: "Alert list"
  alerts_loading :: bool




subsection \<open>Readings page (src/pages/Readings.tsx)\<close>

definition filteredReadings :: "string \<Rightarrow> Reading list \<Rightarrow> Reading list" where
  "filteredReadings selectedLocation readings =
     (if selectedLocation = ''all'' then readings
      else filter (\<lambda>reading. location reading = selectedLocation) readings)"

record averages =
  avg_ph :: jsnumber
  avg_turbidity :: jsnumber
  avg_temperature :: jsnumber

text \<open>
  \<^verbatim>\<open>xs.reduce((sum, r) => sum + r.ph, 0)\<close> is a left fold from 0 with the addition of
  doubles; the quotient by \<^verbatim>\<open>xs.length\<close> is taken only under the guard
  \<^verbatim>\<open>xs.length > 0\<close>.
\<close>

definition currentAverages :: "Reading list \<Rightarrow> averages" where
  "currentAverages fr =
     (if length fr > 0 then
        \<lparr> avg_ph =
            js_divide (foldl (\<lambda>sum r. js_add sum (Finite (ph r))) (Finite 0) fr)
              (Finite (of_nat (length fr))),
          avg_turbidity =
            js_divide (foldl (\<lambda>sum r. js_add sum (Finite (turbidity r))) (Finite 0) fr)
              (Finite (of_nat (length fr))),
          avg_temperature =
            js_divide (foldl (\<lambda>sum r. js_add sum (Finite (temperature r))) (Finite 0) fr)
              (Finite (of_nat (length fr))) \<rparr>
      else
        \<lparr> avg_ph = Finite 0, avg_turbidity = Finite 0, avg_temperature = Finite 0 \<rparr>)"

text \<open>The three summary cards print the averages with 2, 1 and 1 decimals.\<close>

definition displayedPh :: "string \<Rightarrow> Reading list \<Rightarrow> string option" where
  "displayedPh selectedLocation readings =
     toFixed 2 (avg_ph (currentAverages (filteredReadings selectedLocation readings)))"

definition displayedTurbidity :: "string \<Rightarrow> Reading list \<Rightarrow> string option" where
  "displayedTurbidity selectedLocation readings =
     toFixed 1 (avg_turbidity (currentAverages (filteredReadings selectedLocation readings)))"

definition displayedTemperature :: "string \<Rightarrow> Reading list \<Rightarrow> string option" where
  "displayedTemperature selectedLocation readings =
     toFixed 1 (avg_temperature (currentAverages (filteredReadings selectedLocation readings)))"

record ReadingsState =
  readings :: "Reading list"
  readings_loading :: bool
  selectedLocation :: string
  timeRange :: string


text \<open>
  The object pushed in round \<open>i\<close> of the loop: three results of \<^verbatim>\<open>Math.random()\<close>, in the
  order the object literal calls it, and the hour \<open>i\<close> hours before \<open>now\<close>.
\<close>

definition mockReading :: "env \<Rightarrow> int \<Rightarrow> nat \<Rightarrow> Reading" where
  "mockReading e now i =
     \<lparr> reading_id = ''reading-'' @ decimal i,
       location = (if i mod 3 = 0 then ''Riverside Village''
                   else if i mod 3 = 1 then ''Mountain Springs'' else ''Valley View''),
       ph = 65 / 10 + math_random e (3 * i) * 2,
       turbidity = 20 + math_random e (3 * i + 1) * 60,
       temperature = 22 + math_random e (3 * i + 2) * 8,
       timestamp = toISOString (now - int i * 60 * 60 * 1000) \<rparr>"

function mockLoop :: "env \<Rightarrow> int \<Rightarrow> nat \<Rightarrow> Reading list \<Rightarrow> Reading list" where
  "mockLoop e now i mockReadings =
     (if i < 24 then mockLoop e now (i + 1) (mockReadings @ [mockReading e now i])
      else mockReadings)"
  by pat_completeness auto
termination
  by (relation "measure (\<lambda>(e, now, i, mockReadings). 24 - i)") auto

declare mockLoop.simps [simp del]

definition mockReadings :: "env \<Rightarrow> Reading list" where
  "mockReadings e = rev (mockLoop e (date_now e 0) 0 [])"


section \<open>Login page (the component \<^verbatim>\<open>Login\<close> of src/unnamed/part_000)\<close>

record LoginState =
  isLoading :: bool
  credentials :: LoginCredentials

text \<open>
  \<^verbatim>\<open>localStorage.setItem\<close> stores the string of its argument: a missing \<^verbatim>\<open>token\<close> field is
  stored as \<^verbatim>\<open>undefined\<close>. Destructuring a \<^verbatim>\<open>null\<close> body throws, which the \<^verbatim>\<open>catch\<close>
  branch takes like a rejected call.
\<close>

definition js_string :: "string option \<Rightarrow> string" where
  "js_string v = (case v of None \<Rightarrow> ''undefined'' | Some s \<Rightarrow> s)"

definition loginFailed :: toast where
  "loginFailed =
     \<lparr>title = ''Login failed'', description = ''Invalid username or password'',
      variant = Some ''destructive''\<rparr>"

definition loginSuccessful :: toast where
  "loginSuccessful =
     \<lparr>title = ''Login successful'',
      description = ''Welcome to Smart Health Monitoring System'', variant = None\<rparr>"

definition handleSubmit ::
  "(config \<Rightarrow> loginData reply) \<Rightarrow> world \<Rightarrow> LoginState \<Rightarrow> world \<times> LoginState" where
  "handleSubmit network w s =
     (case authAPI_login network w (credentials s) of
        (w', Inr response) \<Rightarrow>
          (case resp_data response of
             LoginObject token \<Rightarrow>
               (navigate ''/alerts''
                  (raise_toast loginSuccessful (setItem ''auth_token'' (js_string token) w')),
                s\<lparr>isLoading := False\<rparr>)
           | NullData \<Rightarrow> (raise_toast loginFailed w', s\<lparr>isLoading := False\<rparr>))
      | (w', Inl error) \<Rightarrow> (raise_toast loginFailed w', s\<lparr>isLoading := False\<rparr>))"

section \<open>Notions of the specification, and example data\<close>

text \<open>
  The arithmetic mean of a list of numbers, and the number \<open>n / 100\<close> written with two
  decimal places: the digits of \<open>n div 100\<close>, a point, and the two last digits of \<open>n\<close>.
\<close>

definition mean :: "rat list \<Rightarrow> rat" where
  "mean xs = sum_list xs / of_nat (length xs)"

definition two_decimals :: "nat \<Rightarrow> string" where
  "two_decimals n = decimal (n div 100) @ ''.'' @ [digit (n div 10 mod 10), digit (n mod 10)]"

text \<open>
  The mean as the arithmetic of doubles gives it: the values are added to \<open>0\<close> from left to
  right, every sum rounded to the nearest double, and the last sum is divided by the
  length, the quotient rounded. A number is representable when rounding leaves it as it
  is; the sums of a list are exact when the sum of the values up to each position is
  representable, so that no addition rounds.
\<close>

fun sum_from :: "jsnumber \<Rightarrow> rat list \<Rightarrow> jsnumber" where
  "sum_from s [] = s"
| "sum_from s (x # xs) = sum_from (js_add s (Finite x)) xs"

definition double_sum :: "rat list \<Rightarrow> jsnumber" where
  "double_sum xs = sum_from (Finite 0) xs"

definition double_mean :: "rat list \<Rightarrow> jsnumber" where
  "double_mean xs = js_divide (double_sum xs) (Finite (of_nat (length xs)))"

definition representable :: "rat \<Rightarrow> bool" where
  "representable x = (round_double x = Finite x)"

fun exact_from :: "rat \<Rightarrow> rat list \<Rightarrow> bool" where
  "exact_from s [] = True"
| "exact_from s (x # xs) = (representable (s + x) \<and> exact_from (s + x) xs)"

definition sums_exact :: "rat list \<Rightarrow> bool" where
  "sums_exact xs = exact_from 0 xs"

text \<open>The averages shown when there is nothing to average.\<close>

definition noAverages :: averages where
  "noAverages = \<lparr> avg_ph = Finite 0, avg_turbidity = Finite 0, avg_temperature = Finite 0 \<rparr>"

text \<open>Data for the concrete runs below.\<close>

definition exampleReadings :: "Reading list" where
  "exampleReadings =
     [ \<lparr> reading_id = ''r1'', location = ''Riverside Village'', ph = 6, turbidity = 30,
         temperature = 24, timestamp = ''2024-01-01T00:00:00.000Z'' \<rparr>,
       \<lparr> reading_id = ''r2'', location = ''Riverside Village'', ph = 7, turbidity = 40,
         temperature = 25, timestamp = ''2024-01-01T01:00:00.000Z'' \<rparr>,
       \<lparr> reading_id = ''r3'', location = ''Riverside Village'', ph = 8, turbidity = 50,
         temperature = 26, timestamp = ''2024-01-01T02:00:00.000Z'' \<rparr> ]"

definition mixedReadings :: "Reading list" where
  "mixedReadings =
     [ \<lparr> reading_id = ''m1'', location = ''Valley View'', ph = 6, turbidity = 30,
         temperature = 24, timestamp = ''2024-01-01T00:00:00.000Z'' \<rparr>,
       \<lparr> reading_id = ''m2'', location = ''Mountain Springs'', ph = 9, turbidity = 80,
         temperature = 29, timestamp = ''2024-01-01T01:00:00.000Z'' \<rparr>,
       \<lparr> reading_id = ''m3'', location = ''Valley View'', ph = 8, turbidity = 50,
         temperature = 26, timestamp = ''2024-01-01T02:00:00.000Z'' \<rparr> ]"

definition frozenReading :: Reading where
  "frozenReading =
     \<lparr> reading_id = ''f1'', location = ''Valley View'', ph = - (1 / 8), turbidity = 1,
       temperature = - 4, timestamp = ''2024-01-01T03:00:00.000Z'' \<rparr>"

text \<open>
  Readings whose values are doubles and whose sums round. \<open>7442198384229745 / 2 ^ 50\<close> is
  the double of the literal \<^verbatim>\<open>6.61\<close>, \<open>3602879701896397 / 2 ^ 55\<close> the one of \<^verbatim>\<open>0.1\<close> and
  \<open>5404319552844595 / 2 ^ 52\<close> the one of \<^verbatim>\<open>1.2\<close>; \<open>MAX_VALUE\<close> is the largest double,
  \<^verbatim>\<open>Number.MAX_VALUE\<close>.
\<close>

definition roundedReadings :: "Reading list" where
  "roundedReadings =
     [ \<lparr> reading_id = ''v1'', location = ''Valley View'', ph = 13 / 2,
         turbidity = 3602879701896397 / 36028797018963968,
         temperature = 24, timestamp = ''2024-01-01T00:00:00.000Z'' \<rparr>,
       \<lparr> reading_id = ''s1'', location = ''Mountain Springs'', ph = 9, turbidity = 80,
         temperature = 29, timestamp = ''2024-01-01T01:00:00.000Z'' \<rparr>,
       \<lparr> reading_id = ''v2'', location = ''Valley View'',
         ph = 7442198384229745 / 1125899906842624,
         turbidity = 5404319552844595 / 4503599627370496,
         temperature = 26, timestamp = ''2024-01-01T02:00:00.000Z'' \<rparr> ]"

definition nearTieReadings :: "Reading list" where
  "nearTieReadings =
     [ \<lparr> reading_id = ''n1'', location = ''Riverside Village'', ph = 13 / 2, turbidity = 30,
         temperature = 24, timestamp = ''2024-01-01T00:00:00.000Z'' \<rparr>,
       \<lparr> reading_id = ''n2'', location = ''Riverside Village'',
         ph = 7442198384229745 / 1125899906842624, turbidity = 40,
         temperature = 25, timestamp = ''2024-01-01T01:00:00.000Z'' \<rparr> ]"

definition absorbedReadings :: "Reading list" where
  "absorbedReadings =
     [ \<lparr> reading_id = ''a1'', location = ''Riverside Village'', ph = 10000000000000000,
         turbidity = 30, temperature = 24, timestamp = ''2024-01-01T00:00:00.000Z'' \<rparr>,
       \<lparr> reading_id = ''a2'', location = ''Riverside Village'', ph = 1, turbidity = 40,
         temperature = 25, timestamp = ''2024-01-01T01:00:00.000Z'' \<rparr>,
       \<lparr> reading_id = ''a3'', location = ''Riverside Village'', ph = - 10000000000000000,
         turbidity = 50, temperature = 26, timestamp = ''2024-01-01T02:00:00.000Z'' \<rparr> ]"

definition MAX_VALUE :: rat where
  "MAX_VALUE = 2 ^ 1024 - 2 ^ 971"

definition hugeReadings :: "Reading list" where
  "hugeReadings =
     [ \<lparr> reading_id = ''h1'', location = ''Valley View'', ph = MAX_VALUE,
         turbidity = 30, temperature = 24, timestamp = ''2024-01-01T00:00:00.000Z'' \<rparr>,
       \<lparr> reading_id = ''h2'', location = ''Valley View'', ph = MAX_VALUE,
         turbidity = 50, temperature = 26, timestamp = ''2024-01-01T01:00:00.000Z'' \<rparr> ]"

definition exampleAlerts :: "Alert list" where
  "exampleAlerts =
     map (\<lambda>(i, s). \<lparr> alert_id = i, alert_type = s, message = ''m'', alert_location = ''l'',
                      alert_timestamp = ''2024-01-01T00:00:00.000Z'', severity = s \<rparr>)
       [(''1'', ''critical''), (''2'', ''warning''), (''3'', ''critical''), (''4'', ''info'')]"

definition capitalisedLocation :: Location where
  "capitalisedLocation =
     \<lparr> location_id = ''7'', village = ''Riverside Village'', district = ''District A'',
       state = ''Maharashtra'', latitude = 19076 / 1000, longitude = 728777 / 10000,
       status = ''Active'' \<rparr>"

text \<open>
  Networks that do not answer, answer 401 or 500 whatever is asked, and one that accepts a
  login; a browser with nothing stored and one that holds a token from an earlier
  session; two runs that differ in what \<^verbatim>\<open>Math.random()\<close> returns.
\<close>

definition offline :: "config \<Rightarrow> 'd reply" where
  "offline cfg = NoReply ''Network Error''"

definition unauthorized :: "'d \<Rightarrow> config \<Rightarrow> 'd reply" where
  "unauthorized body cfg = Reply \<lparr>resp_status = 401, resp_data = body\<rparr>"

definition serverError :: "'d \<Rightarrow> config \<Rightarrow> 'd reply" where
  "serverError body cfg = Reply \<lparr>resp_status = 500, resp_data = body\<rparr>"

definition freshWorld :: world where
  "freshWorld = \<lparr>localStorage = Map.empty, href = ''/login'', toasts = []\<rparr>"

definition signedInWorld :: world where
  "signedInWorld =
     \<lparr>localStorage = [''auth_token'' \<mapsto> ''stale-token''], href = ''/login'', toasts = []\<rparr>"

definition emptyTokenWorld :: world where
  "emptyTokenWorld = \<lparr>localStorage = [''auth_token'' \<mapsto> []], href = ''/alerts'', toasts = []\<rparr>"

definition acceptLogin :: "config \<Rightarrow> loginData reply" where
  "acceptLogin cfg = Reply \<lparr>resp_status = 200, resp_data = LoginObject (Some ''demo-token'')\<rparr>"

definition adminLogin :: LoginState where
  "adminLogin = \<lparr>isLoading = True, credentials = \<lparr>username = ''admin'', password = ''password''\<rparr>\<rparr>"

definition wrongLogin :: LoginState where
  "wrongLogin = \<lparr>isLoading = True, credentials = \<lparr>username = ''admin'', password = ''secret''\<rparr>\<rparr>"



section \<open>Auxiliary lemmas\<close>

subsection \<open>Decimal digits and \<open>toFixed\<close>\<close>

lemma decimal_small: "n < 10 \<Longrightarrow> decimal n = [digit n]"
  by (subst decimal.simps) simp

lemma decimal_large: "10 \<le> n \<Longrightarrow> decimal n = decimal (n div 10) @ [digit (n mod 10)]"
  by (subst decimal.simps) simp

lemma decimal_nonempty: "decimal n \<noteq> []"
  by (subst decimal.simps) simp

lemma digit_values:
  "digit 0 = CHR ''0''" "digit 1 = CHR ''1''" "digit 2 = CHR ''2''" "digit 3 = CHR ''3''"
  "digit 4 = CHR ''4''" "digit 5 = CHR ''5''" "digit 6 = CHR ''6''" "digit 7 = CHR ''7''"
  "digit 8 = CHR ''8''" "digit 9 = CHR ''9''"
  by code_simp+

lemma digit_Suc_0: "digit (Suc 0) = CHR ''1''"
  using digit_values(2) by simp

lemma replicate_small:
  "replicate 2 x = [x, x]" "replicate 3 x = [x, x, x]" "replicate 4 x = [x, x, x, x]"
  "replicate 5 x = [x, x, x, x, x]"
  by (simp_all add: numeral_eq_Suc)

lemmas pad_eval = pad_def decimal_small decimal_large digit_values digit_Suc_0 replicate_small

lemma toFixed_digits_2: "0 \<le> x \<Longrightarrow> toFixed_digits 2 x = two_decimals (nat \<lfloor>x * 100 + 1 / 2\<rfloor>)"
proof -
  define n where "n = nat \<lfloor>x * 100 + 1 / 2\<rfloor>"
  consider "n < 10" | "10 \<le> n" "n < 100" | "100 \<le> n" by linarith
  then have "(let m = decimal n in
           (let m' = (if length m \<le> 2 then replicate (2 + 1 - length m) (CHR ''0'') @ m else m);
                k = length m'
            in take (k - 2) m' @ ''.'' @ drop (k - 2) m')) = two_decimals n"
  proof cases
    case 1
    then show ?thesis
      by (simp add: decimal_small two_decimals_def digit_values numeral_2_eq_2)
  next
    case 2
    then have "n div 10 < 10" by simp
    with 2 show ?thesis
      by (simp add: decimal_large decimal_small two_decimals_def digit_values)
  next
    case 3
    then have a: "10 \<le> n" and b: "10 \<le> n div 10" by simp_all
    have c: "n div 10 div 10 = n div 100" by (simp add: div_mult2_eq)
    have d: "decimal (n div 100) \<noteq> []" by (rule decimal_nonempty)
    then have e: "0 < length (decimal (n div 100))" by simp
    show ?thesis
      using e by (simp add: decimal_large[OF a] decimal_large[OF b] c two_decimals_def)
  qed
  then show ?thesis
    by (simp add: toFixed_digits_def n_def Let_def)
qed

lemma toFixed_2_nonneg:
  "0 \<le> x \<Longrightarrow> x < 10 ^ 21 \<Longrightarrow> toFixed 2 (Finite x) = Some (two_decimals (nat \<lfloor>x * 100 + 1 / 2\<rfloor>))"
  by (simp add: toFixed_def toFixed_digits_2)

lemma toFixed_2_negative:
  "x < 0 \<Longrightarrow> - (10 ^ 21) < x \<Longrightarrow>
   toFixed 2 (Finite x) = Some (''-'' @ two_decimals (nat \<lfloor>- x * 100 + 1 / 2\<rfloor>))"
  by (simp add: toFixed_def toFixed_digits_2 abs_if)

lemma toFixed_2_seven: "toFixed 2 (Finite 7) = Some ''7.00''"
  by code_simp


subsection \<open>Rounding to a double\<close>

lemma pow2_powi: "pow2 e = 2 powi e"
  by (simp add: pow2_def power_int_def inverse_eq_divide power_one_over)

lemma pow2_pos: "0 < pow2 e"
  by (simp add: pow2_powi)

lemma pow2_less: "i < j \<Longrightarrow> pow2 i < pow2 j"
  by (simp add: pow2_powi power_int_strict_increasing)

lemma pow2_le: "i \<le> j \<Longrightarrow> pow2 i \<le> pow2 j"
  by (simp add: pow2_powi power_int_increasing)

lemma pow2_nat: "0 \<le> i \<Longrightarrow> pow2 i = 2 ^ nat i"
  by (simp add: pow2_def)

lemma pow2_diff: "pow2 (i - j) = pow2 i / pow2 j"
  by (simp add: pow2_powi power_int_diff)

lemma floor_log2_bounds:
  assumes "0 < a"
  shows "pow2 (floor_log2 a) \<le> a \<and> a < pow2 (floor_log2 a + 1)"
proof -
  obtain p q where pq: "quotient_of a = (p, q)"
    by force
  then have q: "0 < q"
    by (rule quotient_of_denom_pos)
  have a: "a = of_int p / of_int q"
    using pq by (rule quotient_of_div)
  with assms q have p: "0 < p"
    by (simp add: zero_less_divide_iff)
  define k where "k = bitlen p - bitlen q"
  have bp: "0 \<le> bitlen p - 1" and bq: "0 \<le> bitlen q - 1"
    using p q bitlen_eq_zero_iff [of p] bitlen_eq_zero_iff [of q] bitlen_nonneg [of p]
      bitlen_nonneg [of q] by linarith+
  have "(2::int) ^ nat (bitlen p - 1) \<le> p" "p < 2 ^ nat (bitlen p)"
    "(2::int) ^ nat (bitlen q - 1) \<le> q" "q < 2 ^ nat (bitlen q)"
    using bitlen_bounds [OF p] bitlen_bounds [OF q] by simp_all
  then have P: "(2::rat) ^ nat (bitlen p - 1) \<le> of_int p" "of_int p < (2::rat) ^ nat (bitlen p)"
    and Q: "(2::rat) ^ nat (bitlen q - 1) \<le> of_int q" "of_int q < (2::rat) ^ nat (bitlen q)"
    by (metis of_int_le_iff of_int_numeral of_int_power, metis of_int_less_iff of_int_numeral of_int_power,
        metis of_int_le_iff of_int_numeral of_int_power, metis of_int_less_iff of_int_numeral of_int_power)
  have P': "pow2 (bitlen p - 1) \<le> of_int p" "of_int p < pow2 (bitlen p)"
    and Q': "pow2 (bitlen q - 1) \<le> of_int q" "of_int q < pow2 (bitlen q)"
    using P Q bp bq by (simp_all add: pow2_nat)
  have "a < pow2 (bitlen p) / pow2 (bitlen q - 1)"
    unfolding a using p P' Q' by (intro frac_less) (simp_all add: pow2_pos)
  also have "\<dots> = pow2 (k + 1)"
    by (simp add: k_def pow2_diff [symmetric] algebra_simps)
  finally have upper: "a < pow2 (k + 1)" .
  have "pow2 (bitlen p - 1) / pow2 (bitlen q) < a"
    unfolding a using q P' Q' by (intro frac_less2) (simp_all add: pow2_pos)
  moreover have "pow2 (bitlen p - 1) / pow2 (bitlen q) = pow2 (k - 1)"
    by (simp add: k_def pow2_diff [symmetric] algebra_simps)
  ultimately have lower: "pow2 (k - 1) < a"
    by simp
  have f: "floor_log2 a = (if pow2 k \<le> a then k else k - 1)"
    by (simp add: floor_log2_def pq k_def Let_def)
  show ?thesis
    using upper lower by (simp add: f)
qed

lemma floor_log2_unique:
  assumes "0 < a" "pow2 k \<le> a" "a < pow2 (k + 1)"
  shows "floor_log2 a = k"
proof -
  from floor_log2_bounds [OF assms(1)]
  have "pow2 (floor_log2 a) < pow2 (k + 1)" "pow2 k < pow2 (floor_log2 a + 1)"
    using assms by linarith+
  then have "floor_log2 a < k + 1" "k < floor_log2 a + 1"
    using pow2_le [of "k + 1" "floor_log2 a"] pow2_le [of "floor_log2 a + 1" k] by linarith+
  then show ?thesis
    by simp
qed

lemma round_double_overflow:
  assumes "pow2 1024 \<le> x"
  shows "round_double x = PosInfinity"
proof -
  have x: "0 < x"
    using assms pow2_pos [of 1024] by linarith
  have "pow2 1024 < pow2 (floor_log2 x + 1)"
    using floor_log2_bounds [OF x] assms by linarith
  then have "1023 < floor_log2 x"
    using pow2_le [of "floor_log2 x + 1" 1024] by linarith
  then show ?thesis
    using x by (simp add: round_double_def Let_def max_def)
qed

lemma round_half_even_of_int: "round_half_even (of_int m) = m"
  by (simp add: round_half_even_def)

lemma round_double_exact:
  assumes "0 < x" "pow2 k \<le> x" "x < pow2 (k + 1)" "- 1022 \<le> k" "k \<le> 1023"
    and "x = of_int m * pow2 (k - 52)"
  shows "round_double x = Finite x"
proof -
  have fl: "floor_log2 x = k"
    using assms(1-3) by (rule floor_log2_unique)
  have e: "max (k - 52) (- 1074) = k - 52"
    using assms(4) by simp
  have q: "x / pow2 (k - 52) = of_int m"
    using assms(6) pow2_pos [of "k - 52"] by simp
  have "of_int m * pow2 (k - 52) < pow2 53 * pow2 (k - 52)"
    using assms(3,6) pow2_diff [of "k + 1" 53] pow2_pos [of 53] by (simp add: field_simps)
  then have "of_int m < pow2 53"
    using pow2_pos [of "k - 52"] by simp
  then have m: "m < 2 ^ 53"
    by (simp add: pow2_nat)
  have s: "sgn x = 1"
    using assms(1) by simp
  show ?thesis
    using assms(1,5) m
    by (simp add: round_double_def Let_def fl e q round_half_even_of_int s assms(6) [symmetric])
qed

lemma largest_double: "round_double MAX_VALUE = Finite MAX_VALUE"
  by (rule round_double_exact [where k = 1023 and m = "2 ^ 53 - 1"]) (simp_all add: pow2_def MAX_VALUE_def)

lemma round_double_not_NaN: "round_double x \<noteq> NaN"
  by (simp add: round_double_def Let_def)

lemma js_divide_NaN_iff:
  "b \<noteq> 0 \<Longrightarrow> js_divide x (Finite b) = NaN \<longleftrightarrow> x = NaN"
  by (cases x) (simp_all add: round_double_not_NaN)

subsection \<open>Lower case\<close>

lemma toLowerChar_idem: "toLowerChar (toLowerChar c) = toLowerChar c"
proof (cases "65 \<le> (of_char c :: nat) \<and> (of_char c :: nat) \<le> 90")
  case True
  then have "(of_char (char_of (of_char c + 32 :: nat)) :: nat) = of_char c + 32"
    by simp
  with True show ?thesis
    by (simp add: toLowerChar_def Let_def)
next
  case False
  then have "toLowerChar c = c"
    by (auto simp: toLowerChar_def Let_def)
  then show ?thesis
    by simp
qed

lemma toLowerCase_idem: "toLowerCase (toLowerCase s) = toLowerCase s"
  by (simp add: toLowerCase_def toLowerChar_idem)

lemma getStatusColor_ignores_case: "getStatusColor (toLowerCase s) = getStatusColor s"
  by (simp add: getStatusColor_def toLowerCase_idem)

subsection \<open>Averages and counts\<close>

lemma currentAverages_empty: "currentAverages [] = noAverages"
  by (simp add: currentAverages_def noAverages_def)

lemma foldl_js_add_map:
  "foldl (\<lambda>sum r. js_add sum (Finite (f r))) a fr = sum_from a (map f fr)"
  by (induction fr arbitrary: a) simp_all

lemma currentAverages_nonempty:
  "fr \<noteq> [] \<Longrightarrow> currentAverages fr =
     \<lparr> avg_ph = double_mean (map ph fr),
       avg_turbidity = double_mean (map turbidity fr),
       avg_temperature = double_mean (map temperature fr) \<rparr>"
  by (simp add: currentAverages_def double_mean_def double_sum_def foldl_js_add_map)

lemma displayedPh_nonempty:
  "filteredReadings sel rs \<noteq> [] \<Longrightarrow>
   displayedPh sel rs = toFixed 2 (double_mean (map ph (filteredReadings sel rs)))"
  by (simp add: displayedPh_def currentAverages_nonempty)

lemma sum_from_exact:
  "exact_from s xs \<Longrightarrow> sum_from (Finite s) xs = Finite (s + sum_list xs)"
  by (induction xs arbitrary: s) (simp_all add: representable_def add.assoc)

lemma double_sum_exact: "sums_exact xs \<Longrightarrow> double_sum xs = Finite (sum_list xs)"
  using sum_from_exact [of 0 xs] by (simp add: sums_exact_def double_sum_def)

lemma double_mean_exact:
  "xs \<noteq> [] \<Longrightarrow> sums_exact xs \<Longrightarrow> representable (mean xs) \<Longrightarrow> double_mean xs = Finite (mean xs)"
  by (simp add: double_mean_def double_sum_exact representable_def mean_def)

lemma double_mean_678: "double_mean [6, 7, 8] = Finite 7"
  by code_simp

lemma double_mean_overflow: "double_mean [MAX_VALUE, MAX_VALUE] = PosInfinity"
proof -
  have "round_double (MAX_VALUE + MAX_VALUE) = PosInfinity"
    by (rule round_double_overflow) (simp add: pow2_def MAX_VALUE_def)
  then show ?thesis
    by (simp add: double_mean_def double_sum_def largest_double)
qed

lemma toFixed_2_zero: "toFixed 2 (Finite 0) = Some ''0.00''"
  by code_simp

lemma toFixed_1_zero: "toFixed 1 (Finite 0) = Some ''0.0''"
  by code_simp

lemma filteredReadings_same_location:
  "\<forall>r\<in>set rs. location r = sel \<Longrightarrow> filteredReadings sel rs = rs"
  by (simp add: filteredReadings_def)

lemma length_filter_severity:
  "length (filter (\<lambda>a. severity a = c) as) = count_list (map severity as) c"
  by (induction as) simp_all

subsection \<open>Evaluating \<open>toISOString\<close>\<close>

lemma toISOString_parts:
  "civil_from_days (t div 86400000) = (y, m, d) \<Longrightarrow>
   toISOString t =
     (if 0 \<le> y \<and> y \<le> 9999 then pad 4 (nat y)
      else (if y < 0 then ''-'' else ''+'') @ pad 6 (nat \<bar>y\<bar>)) @
     ''-'' @ pad 2 (nat m) @ ''-'' @ pad 2 (nat d) @ ''T'' @
     pad 2 (nat (t mod 86400000 div 3600000)) @ '':'' @
     pad 2 (nat (t mod 86400000 div 60000 mod 60)) @ '':'' @
     pad 2 (nat (t mod 86400000 div 1000 mod 60)) @ ''.'' @
     pad 3 (nat (t mod 86400000 mod 1000)) @ ''Z''"
  by (simp add: toISOString_def Let_def)



lemma civil_from_days_epoch: "civil_from_days 0 = (1970, 1, 1)"
  by code_simp

lemma toISOString_epoch: "toISOString 0 = ''1970-01-01T00:00:00.000Z''"
proof -
  have "civil_from_days (0 div 86400000) = (1970, 1, 1)"
    by (simp add: civil_from_days_epoch)
  then show ?thesis
    by (simp add: toISOString_parts pad_eval)
qed

subsection \<open>The HTTP client wrapper\<close>

lemma settle_error:
  "\<not> (200 \<le> resp_status resp \<and> resp_status resp < 300) \<Longrightarrow>
   settle (Reply resp) =
     Inl \<lparr>err_message = ''Request failed with status code '' @ decimal (resp_status resp),
          err_response = Some resp\<rparr>"
  by (simp add: settle_def)

lemma settle_no_reply: "settle (NoReply msg) = Inl \<lparr>err_message = msg, err_response = None\<rparr>"
  by (simp add: settle_def)

lemma api_request_outcome: "snd (api_request network w cfg) = settle (network (requestInterceptor w cfg))"
  by (simp add: api_request_def responseFulfilled_def responseRejected_def split: sum.splits)

lemma authAPI_login_request:
  "authAPI_login network w creds = api_request network w (post_config ''/api/login'' (Some creds))"
  by (simp add: authAPI_login_def api_post_def)

lemma api_request_rejected:
  "snd (api_request network w cfg) = Inl error \<Longrightarrow>
   api_request network w cfg =
     ((if map_option resp_status (err_response error) = Some 401
       then navigate ''/login'' (removeItem ''auth_token'' w) else w), Inl error)"
proof (cases "settle (network (requestInterceptor w cfg))")
  case (Inl e)
  assume "snd (api_request network w cfg) = Inl error"
  with Inl have "e = error"
    by (simp add: api_request_def responseRejected_def split: if_splits)
  with Inl show ?thesis
    by (auto simp: api_request_def responseRejected_def)
next
  case (Inr r)
  assume "snd (api_request network w cfg) = Inl error"
  with Inr show ?thesis
    by (simp add: api_request_def responseFulfilled_def)
qed

lemma api_request_fulfilled:
  "network (requestInterceptor w cfg) = Reply resp \<Longrightarrow>
   200 \<le> resp_status resp \<and> resp_status resp < 300 \<Longrightarrow>
   api_request network w cfg = (w, Inr resp)"
  by (simp add: api_request_def settle_def responseFulfilled_def)

subsection \<open>The loop of the mock readings\<close>



section \<open>The claims\<close>




text \<open>
  Claim C2 (Locations page). The claim: every comparison of a location's status with
  \<^verbatim>\<open>active\<close>, \<^verbatim>\<open>warning\<close>, \<^verbatim>\<open>inactive\<close> ignores letter case, so the summary counts and
  the badge styling classify a location alike whatever the case of its status. The badge
  does (\<open>getStatusColor\<close> lowers the case first), the counts compare with \<^verbatim>\<open>===\<close>: a
  location whose status is \<^verbatim>\<open>Active\<close> gets the badge of an active one and is counted by
  no card, while the same location with status \<^verbatim>\<open>active\<close> is counted.
\<close>

theorem status_case_divergence:
  "getStatusColor (status capitalisedLocation) = getStatusColor ''active'' \<and>
   getStatusColor (status capitalisedLocation) = ''bg-status-success text-white'' \<and>
   activeCount [capitalisedLocation] = 0 \<and>
   activeCount [capitalisedLocation\<lparr>status := ''active''\<rparr>] = 1"
proof -
  have "getStatusColor ''Active'' = ''bg-status-success text-white''"
    and "getStatusColor ''active'' = ''bg-status-success text-white''"
    by code_simp+
  then show ?thesis
    by (simp add: capitalisedLocation_def activeCount_def)
qed

text \<open>
  Claim C3 (response interceptor). A call whose response has status 401 removes the stored
  token and sets the window's path to \<^verbatim>\<open>/login\<close>. A response with another status outside
  200 to 299 and a call without an answer leave the browser as it was and reject with the
  transport's error, unchanged; the result of every call is what the transport settled.
\<close>

theorem unauthorized_response_handling:
  "(network (requestInterceptor w cfg) = Reply resp \<and> resp_status resp = 401 \<longrightarrow>
      fst (api_request network w cfg) = navigate ''/login'' (removeItem ''auth_token'' w) \<and>
      getItem ''auth_token'' (fst (api_request network w cfg)) = None \<and>
      href (fst (api_request network w cfg)) = ''/login'') \<and>
   (network (requestInterceptor w cfg) = Reply resp \<and> resp_status resp \<noteq> 401 \<and>
    \<not> (200 \<le> resp_status resp \<and> resp_status resp < 300) \<longrightarrow>
      api_request network w cfg =
        (w, Inl \<lparr>err_message = ''Request failed with status code '' @ decimal (resp_status resp),
                 err_response = Some resp\<rparr>)) \<and>
   (network (requestInterceptor w cfg) = NoReply msg \<longrightarrow>
      api_request network w cfg = (w, Inl \<lparr>err_message = msg, err_response = None\<rparr>)) \<and>
   snd (api_request network w cfg) = settle (network (requestInterceptor w cfg))"
proof -
  have unauth: "network (requestInterceptor w cfg) = Reply resp \<and> resp_status resp = 401 \<longrightarrow>
      fst (api_request network w cfg) = navigate ''/login'' (removeItem ''auth_token'' w) \<and>
      getItem ''auth_token'' (fst (api_request network w cfg)) = None \<and>
      href (fst (api_request network w cfg)) = ''/login''"
  proof
    assume r: "network (requestInterceptor w cfg) = Reply resp \<and> resp_status resp = 401"
    then have "fst (api_request network w cfg) = navigate ''/login'' (removeItem ''auth_token'' w)"
      by (simp add: api_request_def settle_def responseRejected_def)
    then show "fst (api_request network w cfg) = navigate ''/login'' (removeItem ''auth_token'' w) \<and>
      getItem ''auth_token'' (fst (api_request network w cfg)) = None \<and>
      href (fst (api_request network w cfg)) = ''/login''"
      by (simp add: getItem_def navigate_def removeItem_def)
  qed
  have other: "network (requestInterceptor w cfg) = Reply resp \<and> resp_status resp \<noteq> 401 \<and>
    \<not> (200 \<le> resp_status resp \<and> resp_status resp < 300) \<longrightarrow>
      api_request network w cfg =
        (w, Inl \<lparr>err_message = ''Request failed with status code '' @ decimal (resp_status resp),
                 err_response = Some resp\<rparr>)"
    by (simp add: api_request_def settle_error responseRejected_def)
  have silent: "network (requestInterceptor w cfg) = NoReply msg \<longrightarrow>
      api_request network w cfg = (w, Inl \<lparr>err_message = msg, err_response = None\<rparr>)"
    by (simp add: api_request_def settle_no_reply responseRejected_def)
  from unauth other silent api_request_outcome [of network w cfg] show ?thesis
    by (intro conjI)
qed

theorem unauthorized_response_handling_witness:
  "alertsAPI_getAlerts (unauthorized []) signedInWorld =
     (\<lparr>localStorage = Map.empty, href = ''/login'', toasts = []\<rparr>,
      Inl \<lparr>err_message = ''Request failed with status code 401'',
           err_response = Some \<lparr>resp_status = 401, resp_data = []\<rparr>\<rparr>) \<and>
   alertsAPI_getAlerts (serverError []) signedInWorld =
     (signedInWorld,
      Inl \<lparr>err_message = ''Request failed with status code 500'',
           err_response = Some \<lparr>resp_status = 500, resp_data = []\<rparr>\<rparr>) \<and>
   alertsAPI_getAlerts offline signedInWorld =
     (signedInWorld, Inl \<lparr>err_message = ''Network Error'', err_response = None\<rparr>)"
proof -
  let ?cfg = "get_config ''/api/alerts'' None"
  let ?u = "unauthorized [] :: config \<Rightarrow> Alert list reply"
  let ?e = "serverError [] :: config \<Rightarrow> Alert list reply"
  let ?o = "offline :: config \<Rightarrow> Alert list reply"
  let ?r401 = "\<lparr>resp_status = 401, resp_data = [] :: Alert list\<rparr>"
  let ?r500 = "\<lparr>resp_status = 500, resp_data = [] :: Alert list\<rparr>"
  have d: "decimal 401 = ''401''" "decimal 500 = ''500''"
    by (simp_all add: pad_eval)
  have n: "navigate ''/login'' (removeItem ''auth_token'' signedInWorld) =
      \<lparr>localStorage = Map.empty, href = ''/login'', toasts = []\<rparr>"
    by (simp add: navigate_def removeItem_def signedInWorld_def)
  have s: "settle (Reply ?r401) =
      Inl \<lparr>err_message = ''Request failed with status code 401'', err_response = Some ?r401\<rparr>"
    by (simp add: settle_def d)
  have "fst (api_request ?u signedInWorld ?cfg) =
      \<lparr>localStorage = Map.empty, href = ''/login'', toasts = []\<rparr>"
    and "snd (api_request ?u signedInWorld ?cfg) =
      Inl \<lparr>err_message = ''Request failed with status code 401'', err_response = Some ?r401\<rparr>"
    using unauthorized_response_handling [of ?u signedInWorld ?cfg ?r401]
    by (simp_all add: unauthorized_def n s)
  then have a: "api_request ?u signedInWorld ?cfg =
     (\<lparr>localStorage = Map.empty, href = ''/login'', toasts = []\<rparr>,
      Inl \<lparr>err_message = ''Request failed with status code 401'', err_response = Some ?r401\<rparr>)"
    by (simp add: prod_eq_iff)
  have b: "api_request ?e signedInWorld ?cfg =
     (signedInWorld,
      Inl \<lparr>err_message = ''Request failed with status code 500'', err_response = Some ?r500\<rparr>)"
    using unauthorized_response_handling [of ?e signedInWorld ?cfg ?r500]
    by (simp add: serverError_def d)
  have c: "api_request ?o signedInWorld ?cfg =
     (signedInWorld, Inl \<lparr>err_message = ''Network Error'', err_response = None :: Alert list response option\<rparr>)"
    using unauthorized_response_handling [of ?o signedInWorld ?cfg _ "''Network Error''"]
    by (simp add: offline_def)
  from a b c show ?thesis
    by (simp add: alertsAPI_getAlerts_def api_get_def)
qed

text \<open>
  Claim C4 (Readings page). The claim: for a selected location other than \<^verbatim>\<open>all\<close> the
  displayed dataset is the sublist of the readings at that location, and the displayed
  averages are the arithmetic means over that sublist. The first part holds. The averages
  are taken in the arithmetic of doubles, where a sum or a quotient that is not a double
  is rounded: for the readings at Valley View with pH 6.5 and 6.61 the page shows
  \<^verbatim>\<open>6.55\<close> where the mean, a little more than 6.555, prints as \<^verbatim>\<open>6.56\<close>, and for their
  turbidities 0.1 and 1.2 it shows \<^verbatim>\<open>0.7\<close> where the mean, a little less than 0.65,
  prints as \<^verbatim>\<open>0.6\<close>.
\<close>

theorem selected_means_are_rounded:
  "filteredReadings ''Valley View'' roundedReadings = [roundedReadings ! 0, roundedReadings ! 2] \<and>
   displayedPh ''Valley View'' roundedReadings = Some ''6.55'' \<and>
   toFixed 2 (Finite (mean (map ph [roundedReadings ! 0, roundedReadings ! 2]))) = Some ''6.56'' \<and>
   displayedTurbidity ''Valley View'' roundedReadings = Some ''0.7'' \<and>
   toFixed 1 (Finite (mean (map turbidity [roundedReadings ! 0, roundedReadings ! 2]))) = Some ''0.6''"
proof -
  have f: "filteredReadings ''Valley View'' roundedReadings = [roundedReadings ! 0, roundedReadings ! 2]"
    by (simp add: filteredReadings_def roundedReadings_def)
  have p: "map ph [roundedReadings ! 0, roundedReadings ! 2] =
      [13 / 2, 7442198384229745 / 1125899906842624]"
    and t: "map turbidity [roundedReadings ! 0, roundedReadings ! 2] =
      [3602879701896397 / 36028797018963968, 5404319552844595 / 4503599627370496]"
    by (simp_all add: roundedReadings_def)
  have dp: "double_mean [13 / 2, 7442198384229745 / 1125899906842624] =
      Finite (922534236169175 / 140737488355328)"
    and dt: "double_mean [3602879701896397 / 36028797018963968, 5404319552844595 / 4503599627370496] =
      Finite (5854679515581645 / 9007199254740992)"
    by code_simp+
  have sp: "toFixed 2 (Finite (922534236169175 / 140737488355328)) = Some ''6.55''"
    and st: "toFixed 1 (Finite (5854679515581645 / 9007199254740992)) = Some ''0.7''"
    by code_simp+
  have mp: "toFixed 2 (Finite (mean [13 / 2, 7442198384229745 / 1125899906842624])) = Some ''6.56''"
    and mt: "toFixed 1 (Finite (mean [3602879701896397 / 36028797018963968,
      5404319552844595 / 4503599627370496])) = Some ''0.6''"
    by code_simp+
  have "displayedPh ''Valley View'' roundedReadings = Some ''6.55''"
    by (simp add: displayedPh_def f currentAverages_nonempty p dp sp del: map_eq_Cons_conv list.map)
  moreover have "displayedTurbidity ''Valley View'' roundedReadings = Some ''0.7''"
    by (simp add: displayedTurbidity_def f currentAverages_nonempty t dt st del: list.map One_nat_def)
  ultimately show ?thesis
    by (simp only: f p t mp mt)
qed

text \<open>
  Claim C4 as amended. For every list of readings and every selected location other than
  \<^verbatim>\<open>all\<close>, the displayed dataset is exactly the readings whose \<^verbatim>\<open>location\<close> is the
  selected value, in their order, and, when there is one at least, the averages of pH,
  turbidity and temperature are computed over these readings only: each is their mean in
  the arithmetic of doubles, printed with 2, 1 and 1 decimals, and it is their arithmetic
  mean whenever the sums are exact and the mean is a double.
\<close>

theorem filteredReadings_selected:
  assumes "sel \<noteq> ''all''"
  shows "let fr = filter (\<lambda>r. location r = sel) rs in
         filteredReadings sel rs = fr \<and>
         (fr \<noteq> [] \<longrightarrow>
            currentAverages (filteredReadings sel rs) =
              \<lparr> avg_ph = double_mean (map ph fr),
                avg_turbidity = double_mean (map turbidity fr),
                avg_temperature = double_mean (map temperature fr) \<rparr> \<and>
            displayedPh sel rs = toFixed 2 (double_mean (map ph fr)) \<and>
            displayedTurbidity sel rs = toFixed 1 (double_mean (map turbidity fr)) \<and>
            displayedTemperature sel rs = toFixed 1 (double_mean (map temperature fr)) \<and>
            (sums_exact (map ph fr) \<and> representable (mean (map ph fr)) \<longrightarrow>
               avg_ph (currentAverages (filteredReadings sel rs)) = Finite (mean (map ph fr))) \<and>
            (sums_exact (map turbidity fr) \<and> representable (mean (map turbidity fr)) \<longrightarrow>
               avg_turbidity (currentAverages (filteredReadings sel rs)) =
                 Finite (mean (map turbidity fr))) \<and>
            (sums_exact (map temperature fr) \<and> representable (mean (map temperature fr)) \<longrightarrow>
               avg_temperature (currentAverages (filteredReadings sel rs)) =
                 Finite (mean (map temperature fr))))"
proof -
  have eq: "filteredReadings sel rs = filter (\<lambda>r. location r = sel) rs"
    using assms by (simp add: filteredReadings_def)
  show ?thesis
    unfolding Let_def displayedPh_def displayedTurbidity_def displayedTemperature_def eq
    by (simp add: currentAverages_nonempty double_mean_exact)
qed

theorem filteredReadings_selected_witness:
  "''Valley View'' \<noteq> ''all'' \<and>
   filteredReadings ''Valley View'' mixedReadings = [mixedReadings ! 0, mixedReadings ! 2] \<and>
   sums_exact [6, 8] \<and> representable (mean [6, 8]) \<and>
   sums_exact [30, 50] \<and> representable (mean [30, 50]) \<and>
   sums_exact [24, 26] \<and> representable (mean [24, 26]) \<and>
   currentAverages (filteredReadings ''Valley View'' mixedReadings) =
     \<lparr> avg_ph = Finite 7, avg_turbidity = Finite 40, avg_temperature = Finite 25 \<rparr> \<and>
   displayedPh ''Valley View'' mixedReadings = Some ''7.00'' \<and>
   displayedTurbidity ''Valley View'' mixedReadings = Some ''40.0'' \<and>
   displayedTemperature ''Valley View'' mixedReadings = Some ''25.0''"
proof -
  have ne: "''Valley View'' \<noteq> ''all''" by simp
  have fr: "filter (\<lambda>r. location r = ''Valley View'') mixedReadings = [mixedReadings ! 0, mixedReadings ! 2]"
    by (simp add: mixedReadings_def)
  have v: "map ph [mixedReadings ! 0, mixedReadings ! 2] = [6, 8]"
    "map turbidity [mixedReadings ! 0, mixedReadings ! 2] = [30, 50]"
    "map temperature [mixedReadings ! 0, mixedReadings ! 2] = [24, 26]"
    by (simp_all add: mixedReadings_def)
  have m: "double_mean [6, 8] = Finite 7" "double_mean [30, 50] = Finite 40"
    "double_mean [24, 26] = Finite 25"
    by code_simp+
  have x: "sums_exact [6, 8]" "representable (mean [6, 8])"
    "sums_exact [30, 50]" "representable (mean [30, 50])"
    "sums_exact [24, 26]" "representable (mean [24, 26])"
    by code_simp+
  have t: "toFixed 2 (Finite 7) = Some ''7.00''" "toFixed 1 (Finite 40) = Some ''40.0''"
    "toFixed 1 (Finite 25) = Some ''25.0''"
    by code_simp+
  have n: "[mixedReadings ! 0, mixedReadings ! 2] \<noteq> []"
    by simp
  note sel = filteredReadings_selected [OF ne, of mixedReadings, unfolded Let_def fr]
  note avg = sel [THEN conjunct2, THEN mp, OF n, unfolded v m t]
  from sel [THEN conjunct1] avg ne x show ?thesis
    by blast
qed

text \<open>
  Claim C5 (Alerts page). Each of the three summary counts is the number of alerts (of
  positions of the list) whose \<^verbatim>\<open>severity\<close> is the card's label; for alerts of severities
  critical, warning, critical, info the counts are 2, 1 and 1.
\<close>

theorem alert_summary_counts:
  "criticalCount as = card {i. i < length as \<and> severity (as ! i) = ''critical''} \<and>
   warningCount as = card {i. i < length as \<and> severity (as ! i) = ''warning''} \<and>
   infoCount as = card {i. i < length as \<and> severity (as ! i) = ''info''} \<and>
   (map severity as = [''critical'', ''warning'', ''critical'', ''info''] \<longrightarrow>
      criticalCount as = 2 \<and> warningCount as = 1 \<and> infoCount as = 1)"
proof -
  have "criticalCount as = 2 \<and> warningCount as = 1 \<and> infoCount as = 1"
    if "map severity as = [''critical'', ''warning'', ''critical'', ''info'']"
    unfolding criticalCount_def warningCount_def infoCount_def length_filter_severity that
    by simp
  then show ?thesis
    by (simp add: criticalCount_def warningCount_def infoCount_def length_filter_conv_card)
qed

theorem alert_summary_counts_witness:
  "map severity exampleAlerts = [''critical'', ''warning'', ''critical'', ''info''] \<and>
   criticalCount exampleAlerts = 2 \<and> warningCount exampleAlerts = 1 \<and> infoCount exampleAlerts = 1"
proof -
  have s: "map severity exampleAlerts = [''critical'', ''warning'', ''critical'', ''info'']"
    by (simp add: exampleAlerts_def)
  show ?thesis
    using alert_summary_counts [of exampleAlerts] s by simp
qed

text \<open>
  Claim C6 (Readings page). The claim: for pH values 6.0, 7.0, 8.0 at the selected location
  the displayed average is \<^verbatim>\<open>7.00\<close>, and in general it is the arithmetic mean of the pH
  values of the filtered readings with two decimal places. The example holds. In general
  the sum is rounded to a double after every addition, and so is the quotient: for the pH
  values \<open>10 ^ 16\<close>, 1 and \<open>- (10 ^ 16)\<close> the page shows \<^verbatim>\<open>0.00\<close> where the mean, a third,
  prints as \<^verbatim>\<open>0.33\<close>, and for 6.5 and 6.61 it shows \<^verbatim>\<open>6.55\<close> where the mean prints as
  \<^verbatim>\<open>6.56\<close>.
\<close>

theorem displayed_ph_not_exact_mean:
  "filteredReadings ''Riverside Village'' absorbedReadings = absorbedReadings \<and>
   map ph absorbedReadings = [10000000000000000, 1, - 10000000000000000] \<and>
   displayedPh ''Riverside Village'' absorbedReadings = Some ''0.00'' \<and>
   toFixed 2 (Finite (mean (map ph absorbedReadings))) = Some ''0.33'' \<and>
   filteredReadings ''Riverside Village'' nearTieReadings = nearTieReadings \<and>
   displayedPh ''Riverside Village'' nearTieReadings = Some ''6.55'' \<and>
   toFixed 2 (Finite (mean (map ph nearTieReadings))) = Some ''6.56''"
proof -
  have fa: "filteredReadings ''Riverside Village'' absorbedReadings = absorbedReadings"
    and fn: "filteredReadings ''Riverside Village'' nearTieReadings = nearTieReadings"
    by (simp_all add: filteredReadings_def absorbedReadings_def nearTieReadings_def)
  have pa: "map ph absorbedReadings = [10000000000000000, 1, - 10000000000000000]"
    and pn: "map ph nearTieReadings = [13 / 2, 7442198384229745 / 1125899906842624]"
    by (simp_all add: absorbedReadings_def nearTieReadings_def)
  have na: "filteredReadings ''Riverside Village'' absorbedReadings \<noteq> []"
    and nn: "filteredReadings ''Riverside Village'' nearTieReadings \<noteq> []"
    unfolding fa fn by (simp_all add: absorbedReadings_def nearTieReadings_def)
  have da: "double_mean [10000000000000000, 1, - 10000000000000000] = Finite 0"
    and dn: "double_mean [13 / 2, 7442198384229745 / 1125899906842624] =
      Finite (922534236169175 / 140737488355328)"
    by code_simp+
  have ta: "toFixed 2 (Finite 0) = Some ''0.00''"
    and tn: "toFixed 2 (Finite (922534236169175 / 140737488355328)) = Some ''6.55''"
    and ma: "toFixed 2 (Finite (mean [10000000000000000, 1, - 10000000000000000])) = Some ''0.33''"
    and mn: "toFixed 2 (Finite (mean [13 / 2, 7442198384229745 / 1125899906842624])) = Some ''6.56''"
    by code_simp+
  have "displayedPh ''Riverside Village'' absorbedReadings = Some ''0.00''"
    unfolding displayedPh_nonempty [OF na] fa pa da ta ..
  moreover have "displayedPh ''Riverside Village'' nearTieReadings = Some ''6.55''"
    unfolding displayedPh_nonempty [OF nn] fn pn dn tn ..
  ultimately show ?thesis
    using fa fn by (simp only: pa pn ma mn)
qed

text \<open>
  Claim C6 as amended. For readings with pH values 6.0, 7.0, 8.0, all at the selected
  location, the displayed average pH is \<^verbatim>\<open>7.00\<close>. In general, when the filtered list is
  not empty, the displayed average is \<open>toFixed 2\<close> of the mean of the pH values of the
  filtered readings in the arithmetic of doubles, which is their arithmetic mean whenever
  the sums are exact and the mean is a double: for a result \<open>v\<close> from 0 up to \<open>10 ^ 21\<close>
  the nearest hundredth (the upper one of two) written with two decimal places, for a
  negative \<open>v\<close> above \<open>- (10 ^ 21)\<close> a minus sign and the same of its absolute value.
\<close>

theorem displayed_average_ph:
  "(map ph rs = [6, 7, 8] \<and> (\<forall>r\<in>set rs. location r = sel) \<longrightarrow>
      displayedPh sel rs = Some ''7.00'') \<and>
   (filteredReadings sel rs \<noteq> [] \<longrightarrow>
      displayedPh sel rs = toFixed 2 (double_mean (map ph (filteredReadings sel rs))) \<and>
      (sums_exact (map ph (filteredReadings sel rs)) \<and>
       representable (mean (map ph (filteredReadings sel rs))) \<longrightarrow>
         displayedPh sel rs = toFixed 2 (Finite (mean (map ph (filteredReadings sel rs))))) \<and>
      (double_mean (map ph (filteredReadings sel rs)) = Finite v \<and> 0 \<le> v \<and> v < 10 ^ 21 \<longrightarrow>
         displayedPh sel rs = Some (two_decimals (nat \<lfloor>v * 100 + 1 / 2\<rfloor>))) \<and>
      (double_mean (map ph (filteredReadings sel rs)) = Finite v \<and> v < 0 \<and> - (10 ^ 21) < v \<longrightarrow>
         displayedPh sel rs = Some (''-'' @ two_decimals (nat \<lfloor>- v * 100 + 1 / 2\<rfloor>))))"
proof -
  have a: "displayedPh sel rs = Some ''7.00''"
    if "map ph rs = [6, 7, 8]" and "\<forall>r\<in>set rs. location r = sel"
  proof -
    have "rs \<noteq> []" using that(1) by auto
    moreover have "filteredReadings sel rs = rs"
      using that(2) by (rule filteredReadings_same_location)
    ultimately show ?thesis
      by (simp add: displayedPh_nonempty that(1) double_mean_678 toFixed_2_seven)
  qed
  have b: "displayedPh sel rs = toFixed 2 (double_mean (map ph (filteredReadings sel rs)))"
    if "filteredReadings sel rs \<noteq> []"
    using that by (rule displayedPh_nonempty)
  from a b show ?thesis
    by (simp add: toFixed_2_nonneg toFixed_2_negative double_mean_exact)
qed

theorem displayed_average_ph_witness:
  "map ph exampleReadings = [6, 7, 8] \<and>
   sums_exact [6, 7, 8] \<and> representable (mean [6, 7, 8]) \<and>
   displayedPh ''Riverside Village'' exampleReadings = Some ''7.00'' \<and>
   double_mean (map ph (filteredReadings ''all'' mixedReadings)) =
     Finite (8631899285793451 / 1125899906842624) \<and>
   displayedPh ''all'' mixedReadings = Some (two_decimals 767) \<and>
   displayedPh ''all'' mixedReadings = Some ''7.67'' \<and>
   displayedPh ''all'' [frozenReading] = Some ''-0.13''"
proof -
  have p: "map ph exampleReadings = [6, 7, 8]"
    and l: "\<forall>r\<in>set exampleReadings. location r = ''Riverside Village''"
    by (simp_all add: exampleReadings_def)
  have x: "sums_exact [6, 7, 8]" "representable (mean [6, 7, 8])"
    by code_simp+
  have seven: "displayedPh ''Riverside Village'' exampleReadings = Some ''7.00''"
    using displayed_average_ph [of exampleReadings "''Riverside Village''" 0, THEN conjunct1] p l
    by simp
  have n: "filteredReadings ''all'' mixedReadings \<noteq> []"
    and m: "map ph (filteredReadings ''all'' mixedReadings) = [6, 9, 8]"
    by (simp_all add: filteredReadings_def mixedReadings_def)
  have d: "double_mean [6, 9, 8] = Finite (8631899285793451 / 1125899906842624)"
    by code_simp
  have f: "nat \<lfloor>(8631899285793451 / 1125899906842624 :: rat) * 100 + 1 / 2\<rfloor> = 767"
    and t: "two_decimals 767 = ''7.67''"
    by code_simp+
  have pos: "double_mean [6, 9, 8] = Finite (8631899285793451 / 1125899906842624) \<and>
      (0 :: rat) \<le> 8631899285793451 / 1125899906842624 \<and>
      (8631899285793451 / 1125899906842624 :: rat) < 10 ^ 21"
    using d by simp
  note all = displayed_average_ph [of mixedReadings "''all''"
      "8631899285793451 / 1125899906842624", THEN conjunct2, THEN mp, OF n, unfolded m]
  have mixed: "displayedPh ''all'' mixedReadings = Some (two_decimals 767)"
    using all [THEN conjunct2, THEN conjunct2, THEN conjunct1, THEN mp, OF pos] f by simp
  have e: "filteredReadings ''all'' [frozenReading] \<noteq> []"
    and g: "map ph (filteredReadings ''all'' [frozenReading]) = [- (1 / 8)]"
    by (simp_all add: filteredReadings_def frozenReading_def)
  have h: "double_mean [- (1 / 8)] = Finite (- (1 / 8))"
    and i: "nat \<lfloor>- (- (1 / 8) :: rat) * 100 + 1 / 2\<rfloor> = 13" "two_decimals 13 = ''0.13''"
    by code_simp+
  have neg: "double_mean [- (1 / 8)] = Finite (- (1 / 8)) \<and> - (1 / 8 :: rat) < 0 \<and>
      - (10 ^ 21) < - (1 / 8 :: rat)"
    using h by simp
  note cold = displayed_average_ph [of "[frozenReading]" "''all''" "- (1 / 8)",
      THEN conjunct2, THEN mp, OF e, unfolded g]
  have frozen: "displayedPh ''all'' [frozenReading] = Some ''-0.13''"
    using cold [THEN conjunct2, THEN conjunct2, THEN conjunct2, THEN mp, OF neg] i by simp
  show ?thesis
    using p x seven mixed frozen by (simp add: m d t)
qed

text \<open>
  Claim C7 (login form). The claim: on success the returned token is stored and the app
  goes to the default page; on failure a notification is shown, the user stays on the
  form and the stored token is unchanged. The last part fails for a login that the server
  refuses with status 401 while an older token is stored: the call goes through the
  response interceptor, which removes the token.
\<close>

theorem login_failure_changes_storage:
  "getItem ''auth_token'' signedInWorld = Some ''stale-token'' \<and>
   getItem ''auth_token'' (fst (handleSubmit (unauthorized NullData) signedInWorld wrongLogin)) = None \<and>
   toasts (fst (handleSubmit (unauthorized NullData) signedInWorld wrongLogin)) = [loginFailed]"
  by (simp add: handleSubmit_def authAPI_login_request api_request_def settle_def unauthorized_def
      responseRejected_def getItem_def navigate_def removeItem_def raise_toast_def signedInWorld_def)

text \<open>
  Claim C7 as amended. When the login call resolves with a token, the token is stored
  under \<^verbatim>\<open>auth_token\<close> and the path becomes \<^verbatim>\<open>/alerts\<close>. When it is rejected, the
  notification \<^verbatim>\<open>Login failed\<close> is raised and the handler neither stores a token nor
  navigates: storage and path stay as they were, except that after a rejection with
  status 401 the HTTP client wrapper has removed the stored token and set the path to
  \<^verbatim>\<open>/login\<close>.
\<close>

theorem login_submission:
  "(network (requestInterceptor w (post_config ''/api/login'' (Some (credentials s)))) = Reply resp \<and>
    200 \<le> resp_status resp \<and> resp_status resp < 300 \<and> resp_data resp = LoginObject (Some token) \<longrightarrow>
      handleSubmit network w s =
        (navigate ''/alerts'' (raise_toast loginSuccessful (setItem ''auth_token'' token w)),
         s\<lparr>isLoading := False\<rparr>) \<and>
      getItem ''auth_token'' (fst (handleSubmit network w s)) = Some token \<and>
      href (fst (handleSubmit network w s)) = ''/alerts'') \<and>
   (snd (authAPI_login network w (credentials s)) = Inl error \<longrightarrow>
      snd (handleSubmit network w s) = s\<lparr>isLoading := False\<rparr> \<and>
      toasts (fst (handleSubmit network w s)) = toasts w @ [loginFailed] \<and>
      href (fst (handleSubmit network w s)) =
        (if map_option resp_status (err_response error) = Some 401 then ''/login'' else href w) \<and>
      localStorage (fst (handleSubmit network w s)) =
        (if map_option resp_status (err_response error) = Some 401
         then (localStorage w)(''auth_token'' := None) else localStorage w))"
proof -
  let ?cfg = "post_config ''/api/login'' (Some (credentials s))"
  have ok: "handleSubmit network w s =
        (navigate ''/alerts'' (raise_toast loginSuccessful (setItem ''auth_token'' token w)),
         s\<lparr>isLoading := False\<rparr>) \<and>
      getItem ''auth_token'' (fst (handleSubmit network w s)) = Some token \<and>
      href (fst (handleSubmit network w s)) = ''/alerts''"
    if "network (requestInterceptor w ?cfg) = Reply resp \<and>
      200 \<le> resp_status resp \<and> resp_status resp < 300 \<and> resp_data resp = LoginObject (Some token)"
  proof -
    have "handleSubmit network w s =
        (navigate ''/alerts'' (raise_toast loginSuccessful (setItem ''auth_token'' token w)),
         s\<lparr>isLoading := False\<rparr>)"
      using api_request_fulfilled [of network w ?cfg resp] that
      by (simp add: handleSubmit_def authAPI_login_request js_string_def)
    then show ?thesis
      by (simp add: getItem_def navigate_def raise_toast_def setItem_def)
  qed
  have bad: "snd (handleSubmit network w s) = s\<lparr>isLoading := False\<rparr> \<and>
      toasts (fst (handleSubmit network w s)) = toasts w @ [loginFailed] \<and>
      href (fst (handleSubmit network w s)) =
        (if map_option resp_status (err_response error) = Some 401 then ''/login'' else href w) \<and>
      localStorage (fst (handleSubmit network w s)) =
        (if map_option resp_status (err_response error) = Some 401
         then (localStorage w)(''auth_token'' := None) else localStorage w)"
    if "snd (authAPI_login network w (credentials s)) = Inl error"
  proof -
    have "handleSubmit network w s =
      (raise_toast loginFailed
         (if map_option resp_status (err_response error) = Some 401
          then navigate ''/login'' (removeItem ''auth_token'' w) else w),
       s\<lparr>isLoading := False\<rparr>)"
      using api_request_rejected [of network w ?cfg error] that
      by (simp add: handleSubmit_def authAPI_login_request)
    then show ?thesis
      by (auto simp: navigate_def raise_toast_def removeItem_def)
  qed
  show ?thesis
    using ok bad by (intro conjI impI) blast+
qed

theorem login_submission_witness:
  "getItem ''auth_token'' (fst (handleSubmit acceptLogin freshWorld adminLogin)) = Some ''demo-token'' \<and>
   href (fst (handleSubmit acceptLogin freshWorld adminLogin)) = ''/alerts'' \<and>
   toasts (fst (handleSubmit (unauthorized NullData) signedInWorld wrongLogin)) = [loginFailed] \<and>
   href (fst (handleSubmit (unauthorized NullData) signedInWorld wrongLogin)) = ''/login'' \<and>
   localStorage (fst (handleSubmit (unauthorized NullData) signedInWorld wrongLogin)) = Map.empty \<and>
   localStorage (fst (handleSubmit (serverError NullData) signedInWorld wrongLogin)) =
     localStorage signedInWorld"
proof -
  let ?r200 = "\<lparr>resp_status = 200, resp_data = LoginObject (Some ''demo-token'')\<rparr>"
  let ?e401 = "\<lparr>err_message = ''Request failed with status code 401'',
                err_response = Some \<lparr>resp_status = 401, resp_data = NullData\<rparr>\<rparr>"
  let ?e500 = "\<lparr>err_message = ''Request failed with status code 500'',
                err_response = Some \<lparr>resp_status = 500, resp_data = NullData\<rparr>\<rparr>"
  have d: "decimal 401 = ''401''" "decimal 500 = ''500''"
    by (simp_all add: pad_eval)
  have a: "snd (authAPI_login (unauthorized NullData) signedInWorld (credentials wrongLogin)) = Inl ?e401"
    by (simp add: authAPI_login_request api_request_outcome unauthorized_def settle_def d)
  have b: "snd (authAPI_login (serverError NullData) signedInWorld (credentials wrongLogin)) = Inl ?e500"
    by (simp add: authAPI_login_request api_request_outcome serverError_def settle_def d)
  have w: "toasts signedInWorld = []" "href signedInWorld = ''/login''"
    "(localStorage signedInWorld)(''auth_token'' := None) = Map.empty"
    by (simp_all add: signedInWorld_def)
  have r: "acceptLogin (requestInterceptor freshWorld
              (post_config ''/api/login'' (Some (credentials adminLogin)))) = Reply ?r200 \<and>
           200 \<le> resp_status ?r200 \<and> resp_status ?r200 < 300 \<and>
           resp_data ?r200 = LoginObject (Some ''demo-token'')"
    by (simp add: acceptLogin_def)
  note accepted = login_submission [of acceptLogin freshWorld adminLogin ?r200 "''demo-token''" ?e401,
      THEN conjunct1, THEN mp, OF r, THEN conjunct2]
  note refused = login_submission [of "unauthorized NullData" signedInWorld wrongLogin ?r200 "[]" ?e401,
      THEN conjunct2, THEN mp, OF a]
  note failed = login_submission [of "serverError NullData" signedInWorld wrongLogin ?r200 "[]" ?e500,
      THEN conjunct2, THEN mp, OF b]
  from accepted refused failed w show ?thesis
    by simp
qed

text \<open>
  Claim C8 (request interceptor). The claim: with a token in storage the request carries
  \<^verbatim>\<open>Authorization: Bearer\<close> followed by the token, with none it carries no
  \<^verbatim>\<open>Authorization\<close> header. The guard \<^verbatim>\<open>if (token)\<close> takes a stored empty string as no
  token: with the empty string stored under \<^verbatim>\<open>auth_token\<close> the request carries no
  \<^verbatim>\<open>Authorization\<close> header.
\<close>

theorem empty_token_no_header:
  "getItem ''auth_token'' emptyTokenWorld = Some [] \<and>
   headers (requestInterceptor emptyTokenWorld (get_config ''/api/alerts'' None)) ''Authorization'' = None"
  by (simp add: requestInterceptor_def getItem_def emptyTokenWorld_def get_config_def api_defaults_def)

text \<open>
  Claim C8 as amended. For the configuration of every \<^verbatim>\<open>get\<close> and \<^verbatim>\<open>post\<close> of the
  wrapper: with a non-empty token in storage the request carries \<^verbatim>\<open>Authorization: Bearer\<close>
  followed by the token; with no token, or the empty string, in storage it carries no
  \<^verbatim>\<open>Authorization\<close> header. No other header is touched.
\<close>

theorem bearer_header_attached:
  assumes "cfg = get_config path rt \<or> cfg = post_config path body"
  shows "(getItem ''auth_token'' w = Some token \<and> token \<noteq> [] \<longrightarrow>
            headers (requestInterceptor w cfg) ''Authorization'' = Some (''Bearer '' @ token)) \<and>
         (getItem ''auth_token'' w = None \<longrightarrow>
            headers (requestInterceptor w cfg) ''Authorization'' = None) \<and>
         (getItem ''auth_token'' w = Some [] \<longrightarrow>
            headers (requestInterceptor w cfg) ''Authorization'' = None) \<and>
         (k \<noteq> ''Authorization'' \<longrightarrow> headers (requestInterceptor w cfg) k = headers cfg k)"
proof -
  have "headers cfg ''Authorization'' = None"
    using assms by (auto simp: get_config_def post_config_def api_defaults_def)
  then show ?thesis
    by (simp add: requestInterceptor_def split: option.splits)
qed

theorem bearer_header_attached_witness:
  "headers (requestInterceptor signedInWorld (get_config ''/api/alerts'' None)) ''Authorization'' =
     Some ''Bearer stale-token'' \<and>
   headers (requestInterceptor freshWorld (post_config ''/api/login'' None)) ''Authorization'' = None \<and>
   headers (requestInterceptor emptyTokenWorld (get_config ''/api/alerts'' None)) ''Authorization'' = None \<and>
   headers (requestInterceptor signedInWorld (get_config ''/api/alerts'' None)) ''Content-Type'' =
     Some ''application/json''"
proof -
  have g: "getItem ''auth_token'' signedInWorld = Some ''stale-token''"
    "getItem ''auth_token'' freshWorld = None"
    "getItem ''auth_token'' emptyTokenWorld = Some []"
    by (simp_all add: getItem_def signedInWorld_def freshWorld_def emptyTokenWorld_def)
  have h: "headers (get_config ''/api/alerts'' None) ''Content-Type'' = Some ''application/json''"
    by (simp add: get_config_def api_defaults_def)
  show ?thesis
    using bearer_header_attached [of "get_config ''/api/alerts'' None" "''/api/alerts''" None None
        signedInWorld "''stale-token''" "''Content-Type''"]
      bearer_header_attached [of "post_config ''/api/login'' None" "''/api/login''" None None
        freshWorld "[]" "''Content-Type''"]
      bearer_header_attached [of "get_config ''/api/alerts'' None" "''/api/alerts''" None None
        emptyTokenWorld "[]" "''Content-Type''"]
      g h
    by simp
qed

text \<open>
  Claim C9 (Readings page). The filtered list is empty exactly when there are no readings
  or the selected location matches none; then the three averages are 0 (displayed as
  \<^verbatim>\<open>0.00\<close>, \<^verbatim>\<open>0.0\<close>, \<^verbatim>\<open>0.0\<close>) and no quotient is taken. For a list that is not empty
  each average is the quotient of the sum by the length, which is not 0. The guard
  matters: the quotient for the empty list would be \<open>0 / 0\<close>, which is \<^verbatim>\<open>NaN\<close> and is
  printed so, and a quotient by a length that is not 0 is \<^verbatim>\<open>NaN\<close> only if the sum is.
  (An average can still be infinite, when the sum leaves the range of doubles.)
\<close>

theorem empty_filtered_set_averages:
  "(filteredReadings sel rs = [] \<longleftrightarrow> rs = [] \<or> (sel \<noteq> ''all'' \<and> (\<forall>r\<in>set rs. location r \<noteq> sel))) \<and>
   (filteredReadings sel rs = [] \<longrightarrow>
      currentAverages (filteredReadings sel rs) = noAverages \<and>
      displayedPh sel rs = Some ''0.00'' \<and>
      displayedTurbidity sel rs = Some ''0.0'' \<and>
      displayedTemperature sel rs = Some ''0.0'') \<and>
   (fr \<noteq> [] \<longrightarrow>
      of_nat (length fr) \<noteq> (0 :: rat) \<and>
      currentAverages fr =
        \<lparr> avg_ph = js_divide (double_sum (map ph fr)) (Finite (of_nat (length fr))),
          avg_turbidity = js_divide (double_sum (map turbidity fr)) (Finite (of_nat (length fr))),
          avg_temperature = js_divide (double_sum (map temperature fr)) (Finite (of_nat (length fr))) \<rparr>) \<and>
   js_divide (double_sum []) (Finite (of_nat (length ([] :: Reading list)))) = NaN \<and>
   toFixed 2 NaN = Some ''NaN'' \<and>
   (n \<noteq> 0 \<longrightarrow> (js_divide x (Finite (of_nat n)) = NaN) = (x = NaN))"
proof -
  have a: "filteredReadings sel rs = [] \<longleftrightarrow> rs = [] \<or> (sel \<noteq> ''all'' \<and> (\<forall>r\<in>set rs. location r \<noteq> sel))"
    by (auto simp: filteredReadings_def filter_empty_conv)
  have b: "filteredReadings sel rs = [] \<longrightarrow>
      currentAverages (filteredReadings sel rs) = noAverages \<and>
      displayedPh sel rs = Some ''0.00'' \<and>
      displayedTurbidity sel rs = Some ''0.0'' \<and>
      displayedTemperature sel rs = Some ''0.0''"
    by (simp add: displayedPh_def displayedTurbidity_def displayedTemperature_def
        currentAverages_empty noAverages_def toFixed_2_zero toFixed_1_zero del: One_nat_def)
  have c: "fr \<noteq> [] \<longrightarrow>
      of_nat (length fr) \<noteq> (0 :: rat) \<and>
      currentAverages fr =
        \<lparr> avg_ph = js_divide (double_sum (map ph fr)) (Finite (of_nat (length fr))),
          avg_turbidity = js_divide (double_sum (map turbidity fr)) (Finite (of_nat (length fr))),
          avg_temperature = js_divide (double_sum (map temperature fr)) (Finite (of_nat (length fr))) \<rparr>"
    by (simp add: currentAverages_nonempty double_mean_def)
  have d: "js_divide (double_sum []) (Finite (of_nat (length ([] :: Reading list)))) = NaN"
    "toFixed 2 NaN = Some ''NaN''"
    by (simp_all add: double_sum_def toFixed_def)
  have e: "n \<noteq> 0 \<longrightarrow> (js_divide x (Finite (of_nat n)) = NaN) = (x = NaN)"
    by (simp add: js_divide_NaN_iff)
  from a b c d e show ?thesis
    by (intro conjI)
qed

theorem empty_filtered_set_averages_witness:
  "filteredReadings ''Lakeside'' mixedReadings = [] \<and>
   filteredReadings ''all'' [] = [] \<and>
   currentAverages (filteredReadings ''Lakeside'' mixedReadings) = noAverages \<and>
   displayedPh ''Lakeside'' mixedReadings = Some ''0.00'' \<and>
   displayedTurbidity ''Lakeside'' mixedReadings = Some ''0.0'' \<and>
   displayedTemperature ''Lakeside'' mixedReadings = Some ''0.0'' \<and>
   avg_ph (currentAverages hugeReadings) = js_divide (double_sum [MAX_VALUE, MAX_VALUE]) (Finite 2) \<and>
   avg_ph (currentAverages hugeReadings) = PosInfinity \<and>
   js_divide PosInfinity (Finite 2) \<noteq> NaN"
proof -
  have e: "filteredReadings ''Lakeside'' mixedReadings = []"
    by (simp add: filteredReadings_def mixedReadings_def)
  have f: "filteredReadings ''all'' [] = []"
    by (simp add: filteredReadings_def)
  have h: "hugeReadings \<noteq> []" "map ph hugeReadings = [MAX_VALUE, MAX_VALUE]"
    "rat_of_nat (length hugeReadings) = 2"
    by (simp_all add: hugeReadings_def)
  note inst = empty_filtered_set_averages [of "''Lakeside''" mixedReadings hugeReadings 2 PosInfinity]
  have empty: "currentAverages (filteredReadings ''Lakeside'' mixedReadings) = noAverages \<and>
      displayedPh ''Lakeside'' mixedReadings = Some ''0.00'' \<and>
      displayedTurbidity ''Lakeside'' mixedReadings = Some ''0.0'' \<and>
      displayedTemperature ''Lakeside'' mixedReadings = Some ''0.0''"
    using inst [THEN conjunct2, THEN conjunct1, THEN mp, OF e] .
  have huge: "avg_ph (currentAverages hugeReadings) =
      js_divide (double_sum [MAX_VALUE, MAX_VALUE]) (Finite 2)"
    using inst [THEN conjunct2, THEN conjunct2, THEN conjunct1, THEN mp, OF h(1)]
    by (simp add: h)
  have inf: "js_divide (double_sum [MAX_VALUE, MAX_VALUE]) (Finite 2) = PosInfinity"
    using double_mean_overflow by (simp add: double_mean_def)
  have nan: "js_divide PosInfinity (Finite 2) \<noteq> NaN"
    using inst [THEN conjunct2, THEN conjunct2, THEN conjunct2, THEN conjunct2, THEN conjunct2]
    by simp
  from e f empty huge inf nan show ?thesis
    by simp
qed

text \<open>
  Claim C10 (Readings page). With the filter value \<^verbatim>\<open>all\<close> the displayed dataset is the
  fetched list itself, unchanged and in the same order.
\<close>

theorem filteredReadings_all_identity:
  "filteredReadings ''all'' rs = rs"
  by (simp add: filteredReadings_def)

end
